theory Spec2Isabelle
  imports Complex_Main "HOL-Library.AList" "HOL-Library.Word"
begin

section \<open>Common conventions\<close>

text \<open>
  Python dictionaries keep insertion order and \<open>d[k] = v\<close> replaces the value of an
  existing key in place or appends a new key: they are association lists updated with
  \<open>AList.update\<close>. \<open>time.time()\<close> is an input of every handler, one argument per call
  of the source, in the order of the calls. A handler returns its HTTP answer
  (\<open>Inl\<close> for every non-200 answer, an unhandled exception being a 500) together with
  the state it leaves behind. A field of a JSON request body is an optional value of the
  type the clients of this repository send (\<open>None\<close>: the key is missing, as
  \<open>data.get\<close> answers); integers are unbounded, timestamps and durations are real
  numbers.
\<close>

type_synonym byte = "8 word"

datatype http_error =
    Http400 string
  | Http404 string
  | Http503 string
  | Http500 string

text \<open>Truth value of an optional JSON field, as \<open>not x\<close> reads it.\<close>

definition falsy_str :: "string option \<Rightarrow> bool" where
  "falsy_str v = (case v of None \<Rightarrow> True | Some s \<Rightarrow> s = [])"

definition falsy_int :: "int option \<Rightarrow> bool" where
  "falsy_int v = (case v of None \<Rightarrow> True | Some n \<Rightarrow> n = 0)"

definition falsy_float :: "real option \<Rightarrow> bool" where
  "falsy_float v = (case v of None \<Rightarrow> True | Some x \<Rightarrow> x = 0)"

text \<open>\<open>str(n)\<close> for an integer and \<open>int(x)\<close> for a float (truncation towards zero).\<close>

definition digit_char :: "nat \<Rightarrow> char" where
  "digit_char d = ''0123456789'' ! (d mod 10)"

fun str_nat :: "nat \<Rightarrow> string" where
  "str_nat n = (if n < 10 then [digit_char n] else str_nat (n div 10) @ [digit_char (n mod 10)])"

declare str_nat.simps [simp del]

definition str_int :: "int \<Rightarrow> string" where
  "str_int i = (if i < 0 then CHR ''-'' # str_nat (nat (- i)) else str_nat (nat i))"

definition py_int :: "real \<Rightarrow> int" where
  "py_int x = (if 0 \<le> x then \<lfloor>x\<rfloor> else \<lceil>x\<rceil>)"

definition str_opt :: "string option \<Rightarrow> string" where
  "str_opt v = (case v of None \<Rightarrow> ''None'' | Some s \<Rightarrow> s)"

section \<open>Coordination service: master/master.py\<close>

record node =
  url :: string
  registered_at :: real
  last_heartbeat :: real

record chunk =
  chunk_id :: string
  node_id :: string
  node_url :: string
  start :: int
  size_c :: int

record file_info =
  file_id :: string
  size_f :: int
  created_at :: real
  chunks :: "chunk list"

text \<open>The dictionary \<open>metadata\<close>; its key \<open>'datanodes'\<close> is the field \<open>md_datanodes\<close>.\<close>

record metadata_t =
  files :: "(string \<times> file_info) list"
  md_datanodes :: "(string \<times> node) list"
  chunk_size :: int

text \<open>
  The module state: the globals \<open>metadata\<close> and \<open>datanodes\<close>, and what
  \<open>METADATA_FILE\<close> holds (\<open>None\<close>: the file does not exist).
\<close>

record master =
  metadata :: metadata_t
  datanodes :: "(string \<times> node) list"
  metadata_file :: "metadata_t option"

definition default_metadata :: metadata_t where
  "default_metadata = \<lparr>files = [], md_datanodes = [], chunk_size = 4 * 1024 * 1024\<rparr>"

text \<open>Module initialisation (lines 33 to 46), from the content of \<open>METADATA_FILE\<close>.\<close>

definition startup :: "metadata_t option \<Rightarrow> master" where
  "startup on_disk =
     (case on_disk of
        Some m \<Rightarrow> \<lparr>metadata = m, datanodes = [], metadata_file = Some m\<rparr>
      | None \<Rightarrow> \<lparr>metadata = default_metadata, datanodes = [],
                 metadata_file = Some default_metadata\<rparr>)"

definition is_node_registred :: "string option \<Rightarrow> (string \<times> node) list \<Rightarrow> bool \<times> string" where
  "is_node_registred nid data_nodes =
     (case (case nid of None \<Rightarrow> None | Some k \<Rightarrow> map_of data_nodes k) of
        Some data_node \<Rightarrow> (True, ''Node with id '' @ str_opt nid @ '' is registered!'')
      | None \<Rightarrow> (False, ''Node with id '' @ str_opt nid @ '' is not registered!''))"

definition save_metadata :: "master \<Rightarrow> master" where
  "save_metadata st = st\<lparr>metadata_file := Some (metadata st)\<rparr>"

record register_response =
  status :: string
  chunk_size_r :: "int option"

definition register_datanode ::
  "real \<Rightarrow> real \<Rightarrow> real \<Rightarrow> real \<Rightarrow> string option \<Rightarrow> string option \<Rightarrow> master
     \<Rightarrow> (http_error + register_response) \<times> master" where
  "register_datanode t1 t2 t3 t4 nid nurl st =
     (case is_node_registred nid (datanodes st) of
        (True, message) \<Rightarrow> (Inr \<lparr>status = message, chunk_size_r = None\<rparr>, st)
      | (False, message) \<Rightarrow>
          (case (nid, nurl) of
             (Some k, Some u) \<Rightarrow>
               if k = [] \<or> u = [] then (Inl (Http400 ''Missing node_id or node_url''), st)
               else
                 let dn = AList.update k
                            \<lparr>url = u, registered_at = t1, last_heartbeat = t2\<rparr> (datanodes st);
                     md = (metadata st)\<lparr>md_datanodes :=
                            AList.update k
                              \<lparr>url = u, registered_at = t3, last_heartbeat = t4\<rparr>
                              (md_datanodes (metadata st))\<rparr>;
                     st' = save_metadata (st\<lparr>datanodes := dn, metadata := md\<rparr>)
                 in (Inr \<lparr>status = ''registered'',
                          chunk_size_r = Some (chunk_size (metadata st'))\<rparr>, st')
           | _ \<Rightarrow> (Inl (Http400 ''Missing node_id or node_url''), st)))"

definition heartbeat ::
  "real \<Rightarrow> real \<Rightarrow> string option \<Rightarrow> master \<Rightarrow> (http_error + string) \<times> master" where
  "heartbeat t1 t2 nid st =
     (case nid of
        None \<Rightarrow> (Inl (Http400 ''Unknown node_id''), st)
      | Some k \<Rightarrow>
          if k = [] \<or> k \<notin> fst ` set (datanodes st) then (Inl (Http400 ''Unknown node_id''), st)
          else
            let st1 = st\<lparr>datanodes :=
                        AList.map_entry k (\<lambda>n. n\<lparr>last_heartbeat := t1\<rparr>) (datanodes st)\<rparr>
            in if k \<notin> fst ` set (md_datanodes (metadata st1))
               then (Inl (Http500 ''KeyError''), st1)
               else
                 let md = (metadata st1)\<lparr>md_datanodes :=
                            AList.map_entry k (\<lambda>n. n\<lparr>last_heartbeat := t2\<rparr>)
                              (md_datanodes (metadata st1))\<rparr>
                 in (Inr ''alive'', save_metadata (st1\<lparr>metadata := md\<rparr>)))"

text \<open>
  One pass of the loop body of \<open>create_file\<close> (lines 149 to 159); \<open>None\<close> is the
  \<open>KeyError\<close> of \<open>datanodes[node_id]\<close>. In \<open>create_file\<close> the file identifier is
  the truncation of the exact product \<open>t * 1000\<close> (the source truncates the float
  product, which can differ in the last digit); no property below depends on it.
\<close>

definition plan_chunk ::
  "(string \<times> node) list \<Rightarrow> string list \<Rightarrow> string \<Rightarrow> int \<Rightarrow> int \<Rightarrow> nat \<Rightarrow> chunk option" where
  "plan_chunk dns active_nodes fid csz filesize i =
     (let nid = active_nodes ! (i mod length active_nodes)
      in case map_of dns nid of
           None \<Rightarrow> None
         | Some n \<Rightarrow>
             Some \<lparr>chunk_id = fid @ ''_'' @ str_nat i,
                   node_id = nid,
                   node_url = url n,
                   start = int i * csz,
                   size_c = min csz (filesize - int i * csz)\<rparr>)"

record create_response =
  file_id_r :: string
  chunks_r :: "chunk list"
  chunk_size_cr :: int

definition create_file ::
  "real \<Rightarrow> real \<Rightarrow> string option \<Rightarrow> int option \<Rightarrow> master
     \<Rightarrow> (http_error + create_response) \<times> master" where
  "create_file t1 t2 filename filesize st =
     (case (filename, filesize) of
        (Some fname, Some fsize) \<Rightarrow>
          if fname = [] \<or> fsize = 0 then (Inl (Http400 ''Missing filename or filesize''), st)
          else
            let csz = chunk_size (metadata st)
            in if csz = 0 then (Inl (Http500 ''ZeroDivisionError''), st)
               else
                 let num_chunks = (fsize + csz - 1) div csz;
                     active_nodes = map fst (datanodes st)
                 in if active_nodes = [] then (Inl (Http503 ''No active datanodes available''), st)
                    else
                      let fid = str_int (py_int (t1 * 1000))
                      in (case those (map (plan_chunk (datanodes st) active_nodes fid csz fsize)
                                       [0..<nat num_chunks]) of
                            None \<Rightarrow> (Inl (Http500 ''KeyError''), st)
                          | Some cs \<Rightarrow>
                              let md = (metadata st)\<lparr>files :=
                                         AList.update fname
                                           \<lparr>file_id = fid, size_f = fsize, created_at = t2,
                                            chunks = cs\<rparr>
                                           (files (metadata st))\<rparr>
                              in (Inr \<lparr>file_id_r = fid, chunks_r = cs, chunk_size_cr = csz\<rparr>,
                                  save_metadata (st\<lparr>metadata := md\<rparr>)))
      | _ \<Rightarrow> (Inl (Http400 ''Missing filename or filesize''), st))"

text \<open>
  A float quotient \<open>a / b\<close> is the double nearest to the exact quotient, ties going to
  the even neighbour: it is \<open>0.0\<close> exactly when the exact quotient is at most
  \<open>1 / 2 ^ 1075\<close> in magnitude, half of the smallest positive double \<open>1 / 2 ^ 1074\<close>.
\<close>

definition float_quotient_zero :: "real \<Rightarrow> real \<Rightarrow> bool" where
  "float_quotient_zero a b = (\<bar>a / b\<bar> \<le> 1 / 2 ^ 1075)"

text \<open>
  \<open>record_stats\<close>: the answer and, when the report is accepted, the throughput that is
  logged (its exact value). Both divisions of the source are true divisions; the
  division by \<open>duration_ms / 1000\<close> raises \<open>ZeroDivisionError\<close> when that quotient is
  \<open>0.0\<close>. (A byte count too large for a float, which raises \<open>OverflowError\<close>, is not
  modelled.)
\<close>

record stats_response =
  status_s :: string
  throughput_s :: real

definition record_stats ::
  "string option \<Rightarrow> string option \<Rightarrow> int option \<Rightarrow> real option
     \<Rightarrow> http_error + stats_response" where
  "record_stats nid operation bytes_processed duration_ms =
     (if falsy_str nid \<or> falsy_str operation \<or> falsy_int bytes_processed
         \<or> falsy_float duration_ms
      then Inl (Http400 ''Missing required fields'')
      else
        (case (bytes_processed, duration_ms) of
           (Some b, Some d) \<Rightarrow>
             if float_quotient_zero d 1000 then Inl (Http500 ''ZeroDivisionError'')
             else Inr \<lparr>status_s = ''recorded'',
                       throughput_s = (real_of_int b / 1024 / 1024) / (d / 1000)\<rparr>
         | _ \<Rightarrow> Inl (Http400 ''Missing required fields'')))"

subsection \<open>Writing the checkpoint file\<close>

text \<open>
  \<open>save_metadata\<close> at the level of the file system: \<open>open(METADATA_FILE, 'w')\<close> truncates
  the file, then \<open>json.dump\<close> writes the pieces of the encoded text into it, one after
  the other. The pieces (whose concatenation is the JSON text of \<open>metadata\<close>) are a
  parameter. A process that dies has performed a prefix of these operations.
\<close>

type_synonym disk = "string \<rightharpoonup> string"

datatype file_op = Open_w string | Write_str string string

fun file_step :: "file_op \<Rightarrow> disk \<Rightarrow> disk" where
  "file_step (Open_w p) d = d(p \<mapsto> [])"
| "file_step (Write_str p s) d = d(p \<mapsto> (case d p of None \<Rightarrow> s | Some c \<Rightarrow> c @ s))"

definition METADATA_FILE :: string where
  "METADATA_FILE = ''/data/metadata.json''"

definition save_metadata_ops :: "string list \<Rightarrow> file_op list" where
  "save_metadata_ops json_pieces = Open_w METADATA_FILE # map (Write_str METADATA_FILE) json_pieces"

definition crash_after :: "nat \<Rightarrow> file_op list \<Rightarrow> disk \<Rightarrow> disk" where
  "crash_after k ops d = fold file_step (take k ops) d"

section \<open>Storage node: datanode/datanode.py\<close>

















section \<open>Client: client/client.py\<close>

record downloaded_chunk =
  chunk_id_d :: string
  start_d :: int
  data :: "byte list"

text \<open>
  \<open>download_chunk\<close>; \<open>fetch node_url chunk_id\<close> is what \<open>requests.get\<close> answers for
  that chunk (status code and body), \<open>None\<close> when it raises.
\<close>

definition download_chunk ::
  "(string \<Rightarrow> string \<Rightarrow> (nat \<times> byte list) option) \<Rightarrow> chunk \<Rightarrow> downloaded_chunk option" where
  "download_chunk fetch c =
     (case fetch (node_url c) (chunk_id c) of
        None \<Rightarrow> None
      | Some (status_code, content) \<Rightarrow>
          if status_code = 200
          then Some \<lparr>chunk_id_d = chunk_id c, start_d = start c, data = content\<rparr>
          else None)"

text \<open>
  \<open>list(executor.map(fn, xs))\<close>: one task per element, each result kept in the slot of
  its element. \<open>completion\<close> lists the task indices in the order in which the workers
  finish them. The list is returned once every slot is filled (\<open>None\<close>: some task never
  finishes), slot by slot.
\<close>

definition executor_map :: "('a \<Rightarrow> 'b) \<Rightarrow> 'a list \<Rightarrow> nat list \<Rightarrow> 'b list option" where
  "executor_map fn xs completion =
     those (fold (\<lambda>i slots. if i < length xs then slots[i := Some (fn (xs ! i))] else slots)
              completion (replicate (length xs) None))"

record download_result =
  written :: "byte list option"
  incomplete :: bool
  reported_ok :: bool

text \<open>
  \<open>download\<close>, from the answer of the master for the file: the bytes written to the
  output file (\<open>None\<close>: the file is not opened), whether the warning about failed
  chunks is printed, and whether the success line is (the throughput raises when the
  two clock readings are equal, after the file is closed).
\<close>

definition download ::
  "real \<Rightarrow> real \<Rightarrow> http_error + file_info \<Rightarrow> (string \<Rightarrow> string \<Rightarrow> (nat \<times> byte list) option)
     \<Rightarrow> nat list \<Rightarrow> download_result option" where
  "download start_time end_time master_response fetch completion =
     (case master_response of
        Inl e \<Rightarrow> Some \<lparr>written = None, incomplete = False, reported_ok = False\<rparr>
      | Inr info \<Rightarrow>
          (case executor_map (download_chunk fetch) (chunks info) completion of
             None \<Rightarrow> None
           | Some results \<Rightarrow>
               let downloaded_chunks = List.map_filter (\<lambda>c. c) results
               in Some \<lparr>written = Some (concat (map data downloaded_chunks)),
                        incomplete = (length downloaded_chunks \<noteq> length (chunks info)),
                        reported_ok = (end_time - start_time \<noteq> 0)\<rparr>))"


section \<open>Example states\<close>

text \<open>
  The scenario of the specification: a chunk size of 4096 bytes and two registered nodes,
  \<open>A\<close> then \<open>B\<close>.
\<close>

definition two_nodes :: master where
  "two_nodes =
     \<lparr>metadata = \<lparr>files = [],
                   md_datanodes =
                     [(''A'', \<lparr>url = ''http://a'', registered_at = 1, last_heartbeat = 1\<rparr>),
                      (''B'', \<lparr>url = ''http://b'', registered_at = 2, last_heartbeat = 2\<rparr>)],
                   chunk_size = 4096\<rparr>,
      datanodes = [(''A'', \<lparr>url = ''http://a'', registered_at = 1, last_heartbeat = 1\<rparr>),
                   (''B'', \<lparr>url = ''http://b'', registered_at = 2, last_heartbeat = 2\<rparr>)],
      metadata_file = None\<rparr>"




section \<open>Properties of the chunk plan\<close>

subsection \<open>What \<open>create_file\<close> answers\<close>

lemma those_eq_Some: "those xs = Some ys \<longleftrightarrow> xs = map Some ys"
  by (induction xs arbitrary: ys) (auto split: option.splits)

lemma map_of_key_nth:
  "i < length dns \<Longrightarrow> \<exists>n. map_of dns (map fst dns ! i) = Some n"
proof -
  assume "i < length dns"
  then have "map fst dns ! i \<in> fst ` set dns"
    by (metis length_map nth_mem set_map)
  then show ?thesis
    by (metis domD dom_map_of_conv_image_fst)
qed

lemma plan_chunk_Some:
  assumes "dns \<noteq> []"
  shows "\<exists>c. plan_chunk dns (map fst dns) fid csz fsize i = Some c
           \<and> chunk_id c = fid @ ''_'' @ str_nat i
           \<and> node_id c = map fst dns ! (i mod length dns)
           \<and> start c = int i * csz
           \<and> size_c c = min csz (fsize - int i * csz)"
proof -
  from assms have "i mod length dns < length dns" by simp
  from map_of_key_nth [OF this] obtain n
    where "map_of dns (map fst dns ! (i mod length dns)) = Some n" by blast
  then show ?thesis by (simp add: plan_chunk_def)
qed

lemma create_file_ok:
  assumes "fname \<noteq> []" "fsize \<noteq> 0" "chunk_size (metadata st) \<noteq> 0" "datanodes st \<noteq> []"
  shows "\<exists>plan. create_file t1 t2 (Some fname) (Some fsize) st =
           (Inr \<lparr>file_id_r = str_int (py_int (t1 * 1000)), chunks_r = plan,
                 chunk_size_cr = chunk_size (metadata st)\<rparr>,
            save_metadata (st\<lparr>metadata := (metadata st)\<lparr>files :=
               AList.update fname
                 \<lparr>file_id = str_int (py_int (t1 * 1000)), size_f = fsize, created_at = t2,
                  chunks = plan\<rparr> (files (metadata st))\<rparr>\<rparr>))
         \<and> length plan = nat ((fsize + chunk_size (metadata st) - 1) div chunk_size (metadata st))
         \<and> (\<forall>i < length plan.
               chunk_id (plan ! i) = str_int (py_int (t1 * 1000)) @ ''_'' @ str_nat i
             \<and> node_id (plan ! i) = map fst (datanodes st) ! (i mod length (datanodes st))
             \<and> start (plan ! i) = int i * chunk_size (metadata st)
             \<and> size_c (plan ! i) = min (chunk_size (metadata st)) (fsize - int i * chunk_size (metadata st)))"
proof -
  define csz where "csz = chunk_size (metadata st)"
  define fid where "fid = str_int (py_int (t1 * 1000))"
  define n where "n = nat ((fsize + csz - 1) div csz)"
  define f where "f = plan_chunk (datanodes st) (map fst (datanodes st)) fid csz fsize"
  define plan where "plan = map (\<lambda>i. the (f i)) [0..<n]"
  have fS: "\<And>i. f i = Some (the (f i))"
    using plan_chunk_Some [OF assms(4)] unfolding f_def by (metis option.sel)
  have "map f [0..<n] = map Some plan"
    unfolding plan_def using fS by simp
  then have th: "those (map f [0..<n]) = Some plan"
    by (simp add: those_eq_Some)
  have len: "length plan = n" by (simp add: plan_def)
  have nth: "\<And>i. i < n \<Longrightarrow> f i = Some (plan ! i)"
    using fS by (simp add: plan_def)
  have eq: "create_file t1 t2 (Some fname) (Some fsize) st =
           (Inr \<lparr>file_id_r = fid, chunks_r = plan, chunk_size_cr = csz\<rparr>,
            save_metadata (st\<lparr>metadata := (metadata st)\<lparr>files :=
               AList.update fname
                 \<lparr>file_id = fid, size_f = fsize, created_at = t2,
                  chunks = plan\<rparr> (files (metadata st))\<rparr>\<rparr>))"
    using assms th unfolding create_file_def f_def csz_def fid_def n_def
    by (simp add: Let_def)
  have flds: "\<forall>i < length plan.
               chunk_id (plan ! i) = fid @ ''_'' @ str_nat i
             \<and> node_id (plan ! i) = map fst (datanodes st) ! (i mod length (datanodes st))
             \<and> start (plan ! i) = int i * csz
             \<and> size_c (plan ! i) = min csz (fsize - int i * csz)"
  proof (intro allI impI)
    fix i assume "i < length plan"
    then have "f i = Some (plan ! i)" using nth len by simp
    moreover from plan_chunk_Some [OF assms(4), of fid csz fsize i]
    obtain c where "f i = Some c" "chunk_id c = fid @ ''_'' @ str_nat i"
      "node_id c = map fst (datanodes st) ! (i mod length (datanodes st))"
      "start c = int i * csz" "size_c c = min csz (fsize - int i * csz)"
      unfolding f_def by blast
    ultimately show "chunk_id (plan ! i) = fid @ ''_'' @ str_nat i
             \<and> node_id (plan ! i) = map fst (datanodes st) ! (i mod length (datanodes st))
             \<and> start (plan ! i) = int i * csz
             \<and> size_c (plan ! i) = min csz (fsize - int i * csz)" by simp
  qed
  show ?thesis
    using eq len flds unfolding csz_def fid_def n_def by blast
qed

subsection \<open>Arithmetic of the chunk sizes\<close>

lemma ceil_div_bounds:
  fixes fs cs :: int
  assumes "0 < cs"
  shows "fs \<le> ((fs + cs - 1) div cs) * cs" and "((fs + cs - 1) div cs) * cs < fs + cs"
proof -
  have a: "(fs + cs - 1) = ((fs + cs - 1) div cs) * cs + (fs + cs - 1) mod cs" by simp
  have b: "0 \<le> (fs + cs - 1) mod cs" "(fs + cs - 1) mod cs < cs" using assms by simp_all
  show "fs \<le> ((fs + cs - 1) div cs) * cs" using a b by linarith
  show "((fs + cs - 1) div cs) * cs < fs + cs" using a b by linarith
qed

lemma below_num_chunks:
  fixes fs cs :: int
  assumes "0 < cs" "i < nat ((fs + cs - 1) div cs)"
  shows "int i * cs < fs"
proof -
  have "int i + 1 \<le> (fs + cs - 1) div cs" using assms(2) by linarith
  then have "(int i + 1) * cs \<le> ((fs + cs - 1) div cs) * cs"
    using assms(1) by (simp add: mult_right_mono)
  with ceil_div_bounds(2) [OF assms(1), of fs] show ?thesis
    by (simp add: algebra_simps)
qed

lemma sum_min_prefix:
  fixes fs cs :: int
  assumes "0 < cs" "0 \<le> fs" "\<forall>i < k. int i * cs < fs"
  shows "sum_list (map (\<lambda>i. min cs (fs - int i * cs)) [0..<k]) = min (int k * cs) fs"
  using assms(3)
proof (induction k)
  case 0
  from assms(2) show ?case by simp
next
  case (Suc k)
  then have ih: "sum_list (map (\<lambda>i. min cs (fs - int i * cs)) [0..<k]) = min (int k * cs) fs"
    by simp
  from Suc.prems have "int k * cs < fs" by simp
  then show ?case using ih by (simp add: algebra_simps min_def)
qed

lemma plan_sizes_sum:
  fixes fs cs :: int
  assumes "0 < cs" "0 < fs"
  shows "sum_list (map (\<lambda>i. min cs (fs - int i * cs)) [0..<nat ((fs + cs - 1) div cs)]) = fs"
proof -
  let ?n = "nat ((fs + cs - 1) div cs)"
  have "\<forall>i < ?n. int i * cs < fs" using below_num_chunks [OF assms(1)] by blast
  from assms(2) have "0 \<le> fs" by simp
  from sum_min_prefix [OF assms(1) this \<open>\<forall>i < ?n. int i * cs < fs\<close>]
  have "sum_list (map (\<lambda>i. min cs (fs - int i * cs)) [0..<?n]) = min (int ?n * cs) fs" .
  moreover have "0 \<le> (fs + cs - 1) div cs"
    using assms by (simp add: pos_imp_zdiv_nonneg_iff)
  then have "int ?n = (fs + cs - 1) div cs" by simp
  with ceil_div_bounds(1) [OF assms(1), of fs] have "fs \<le> int ?n * cs" by metis
  ultimately show ?thesis by simp
qed

lemma byte_in_unique_chunk:
  fixes fs cs b :: int
  assumes "0 < cs" "0 \<le> b" "b < fs"
  shows "\<exists>!i. i < nat ((fs + cs - 1) div cs)
            \<and> int i * cs \<le> b \<and> b < int i * cs + min cs (fs - int i * cs)"
proof
  let ?n = "nat ((fs + cs - 1) div cs)"
  let ?i = "nat (b div cs)"
  have nn: "0 \<le> b div cs" using assms by (simp add: pos_imp_zdiv_nonneg_iff)
  have lo: "(b div cs) * cs \<le> b" and hi: "b < (b div cs) * cs + cs"
  proof -
    have "b = (b div cs) * cs + b mod cs" by simp
    moreover have "0 \<le> b mod cs" "b mod cs < cs" using assms(1) by simp_all
    ultimately show "(b div cs) * cs \<le> b" "b < (b div cs) * cs + cs" by linarith+
  qed
  have "b div cs < (fs + cs - 1) div cs"
  proof (rule ccontr)
    assume "\<not> b div cs < (fs + cs - 1) div cs"
    then have "(fs + cs - 1) div cs \<le> b div cs" by simp
    then have "((fs + cs - 1) div cs) * cs \<le> (b div cs) * cs"
      using assms(1) by (simp add: mult_right_mono)
    with ceil_div_bounds(1) [OF assms(1), of fs] lo assms(3) show False by linarith
  qed
  then have "?i < ?n" using nn by linarith
  moreover have "int ?i * cs \<le> b" using lo nn by simp
  moreover have "b < int ?i * cs + min cs (fs - int ?i * cs)"
    using hi nn assms(3) by (simp add: min_def)
  ultimately show "?i < ?n \<and> int ?i * cs \<le> b \<and> b < int ?i * cs + min cs (fs - int ?i * cs)"
    by blast
next
  fix j
  assume j: "j < nat ((fs + cs - 1) div cs)
            \<and> int j * cs \<le> b \<and> b < int j * cs + min cs (fs - int j * cs)"
  then have "int j * cs \<le> b" "b < int j * cs + cs" by (simp_all add: min_def split: if_splits)
  then have "b div cs = int j"
    by (intro int_div_pos_eq [where r = "b - int j * cs"]) (simp_all add: algebra_simps)
  then show "j = nat (b div cs)" by simp
qed

lemma scenario_plan:
  "fst (create_file 0 0 (Some ''f'') (Some 10000) two_nodes) =
     Inr \<lparr>file_id_r = ''0'',
          chunks_r =
            [\<lparr>chunk_id = ''0_0'', node_id = ''A'', node_url = ''http://a'', start = 0, size_c = 4096\<rparr>,
             \<lparr>chunk_id = ''0_1'', node_id = ''B'', node_url = ''http://b'', start = 4096, size_c = 4096\<rparr>,
             \<lparr>chunk_id = ''0_2'', node_id = ''A'', node_url = ''http://a'', start = 8192, size_c = 1808\<rparr>],
          chunk_size_cr = 4096\<rparr>"
  by (simp add: create_file_def two_nodes_def plan_chunk_def py_int_def str_int_def save_metadata_def
      str_nat.simps digit_char_def upt_conv_Cons Let_def)

text \<open>
  C6. For a file size above zero, a non-empty registry (and the positive chunk size the
  service is configured with, and a non-empty file name), \<open>create_file\<close> succeeds and
  records the plan it answers; chunk \<open>i\<close> of the plan starts at \<open>i * chunk_size\<close> and
  has size \<open>min(chunk_size, filesize - i * chunk_size)\<close>; the sizes sum to the file size;
  every chunk is a non-empty range inside \<open>[0, filesize)\<close>, and every byte offset of
  \<open>[0, filesize)\<close> lies in the range of exactly one chunk (no gap, no overlap).
\<close>

theorem create_file_plan_tiles:
  assumes "0 < chunk_size (metadata st)" "datanodes st \<noteq> []" "fname \<noteq> []" "0 < fsize"
  shows "\<exists>resp st'. create_file t1 t2 (Some fname) (Some fsize) st = (Inr resp, st')
     \<and> map_option chunks (map_of (files (metadata st')) fname) = Some (chunks_r resp)
     \<and> map_option size_f (map_of (files (metadata st')) fname) = Some fsize
     \<and> length (chunks_r resp) = nat ((fsize + chunk_size (metadata st) - 1) div chunk_size (metadata st))
     \<and> (\<forall>i < length (chunks_r resp).
            start (chunks_r resp ! i) = int i * chunk_size (metadata st)
          \<and> size_c (chunks_r resp ! i)
              = min (chunk_size (metadata st)) (fsize - int i * chunk_size (metadata st)))
     \<and> sum_list (map size_c (chunks_r resp)) = fsize
     \<and> (\<forall>i < length (chunks_r resp).
            0 \<le> start (chunks_r resp ! i) \<and> 0 < size_c (chunks_r resp ! i)
          \<and> start (chunks_r resp ! i) + size_c (chunks_r resp ! i) \<le> fsize)
     \<and> (\<forall>b. 0 \<le> b \<and> b < fsize \<longrightarrow>
            (\<exists>!i. i < length (chunks_r resp) \<and> start (chunks_r resp ! i) \<le> b
                  \<and> b < start (chunks_r resp ! i) + size_c (chunks_r resp ! i)))"
proof -
  define cs where "cs = chunk_size (metadata st)"
  define n where "n = nat ((fsize + cs - 1) div cs)"
  have cs: "0 < cs" using assms(1) by (simp add: cs_def)
  from assms have "fsize \<noteq> 0" "chunk_size (metadata st) \<noteq> 0" by simp_all
  from create_file_ok [OF assms(3) this assms(2), of t1 t2]
  obtain plan where
    eq: "create_file t1 t2 (Some fname) (Some fsize) st =
           (Inr \<lparr>file_id_r = str_int (py_int (t1 * 1000)), chunks_r = plan, chunk_size_cr = cs\<rparr>,
            save_metadata (st\<lparr>metadata := (metadata st)\<lparr>files :=
               AList.update fname
                 \<lparr>file_id = str_int (py_int (t1 * 1000)), size_f = fsize, created_at = t2,
                  chunks = plan\<rparr> (files (metadata st))\<rparr>\<rparr>))"
    and len: "length plan = n"
    and flds: "\<And>i. i < length plan \<Longrightarrow>
                 start (plan ! i) = int i * cs \<and> size_c (plan ! i) = min cs (fsize - int i * cs)"
    unfolding cs_def n_def by blast
  have stored1: "map_option chunks (map_of (files (metadata (save_metadata (st\<lparr>metadata := (metadata st)\<lparr>files :=
               AList.update fname
                 \<lparr>file_id = str_int (py_int (t1 * 1000)), size_f = fsize, created_at = t2,
                  chunks = plan\<rparr> (files (metadata st))\<rparr>\<rparr>)))) fname) = Some plan"
    by (simp add: save_metadata_def update_conv')
  have stored2: "map_option size_f (map_of (files (metadata (save_metadata (st\<lparr>metadata := (metadata st)\<lparr>files :=
               AList.update fname
                 \<lparr>file_id = str_int (py_int (t1 * 1000)), size_f = fsize, created_at = t2,
                  chunks = plan\<rparr> (files (metadata st))\<rparr>\<rparr>)))) fname) = Some fsize"
    by (simp add: save_metadata_def update_conv')
  have sizes: "map size_c plan = map (\<lambda>i. min cs (fsize - int i * cs)) [0..<n]"
    using len flds by (intro nth_equalityI) simp_all
  have total: "sum_list (map size_c plan) = fsize"
    unfolding sizes n_def by (rule plan_sizes_sum [OF cs assms(4)])
  have inside: "\<forall>i < length plan. 0 \<le> start (plan ! i) \<and> 0 < size_c (plan ! i)
          \<and> start (plan ! i) + size_c (plan ! i) \<le> fsize"
  proof (intro allI impI)
    fix i assume i: "i < length plan"
    then have "int i * cs < fsize" using below_num_chunks [OF cs, of i fsize] len n_def by simp
    moreover have "0 \<le> int i * cs" using cs by simp
    ultimately show "0 \<le> start (plan ! i) \<and> 0 < size_c (plan ! i)
          \<and> start (plan ! i) + size_c (plan ! i) \<le> fsize"
      using flds [OF i] cs by (simp add: min_def)
  qed
  have tile: "\<forall>b. 0 \<le> b \<and> b < fsize \<longrightarrow>
            (\<exists>!i. i < length plan \<and> start (plan ! i) \<le> b
                  \<and> b < start (plan ! i) + size_c (plan ! i))"
  proof (intro allI impI)
    fix b assume b: "0 \<le> b \<and> b < fsize"
    from byte_in_unique_chunk [OF cs, of b fsize] b
    have ex: "\<exists>!i. i < n \<and> int i * cs \<le> b \<and> b < int i * cs + min cs (fsize - int i * cs)"
      unfolding n_def by simp
    have "\<And>i. (i < length plan \<and> start (plan ! i) \<le> b
                  \<and> b < start (plan ! i) + size_c (plan ! i))
          \<longleftrightarrow> (i < n \<and> int i * cs \<le> b \<and> b < int i * cs + min cs (fsize - int i * cs))"
      using flds len by auto
    with ex show "\<exists>!i. i < length plan \<and> start (plan ! i) \<le> b
                  \<and> b < start (plan ! i) + size_c (plan ! i)" by simp
  qed
  show ?thesis
    apply (rule exI [where x = "\<lparr>file_id_r = str_int (py_int (t1 * 1000)), chunks_r = plan, chunk_size_cr = cs\<rparr>"])
    apply (rule exI [where x = "save_metadata (st\<lparr>metadata := (metadata st)\<lparr>files :=
               AList.update fname
                 \<lparr>file_id = str_int (py_int (t1 * 1000)), size_f = fsize, created_at = t2,
                  chunks = plan\<rparr> (files (metadata st))\<rparr>\<rparr>)"])
    using eq stored1 stored2 len flds total inside tile unfolding cs_def [symmetric] n_def [symmetric]
    apply simp
    done
qed

theorem create_file_plan_tiles_witness:
  "0 < chunk_size (metadata two_nodes) \<and> datanodes two_nodes \<noteq> [] \<and> ''f'' \<noteq> [] \<and> (0::int) < 10000
   \<and> (\<exists>resp st'. create_file 0 0 (Some ''f'') (Some 10000) two_nodes = (Inr resp, st')
     \<and> map_option chunks (map_of (files (metadata st')) ''f'') = Some (chunks_r resp)
     \<and> map_option size_f (map_of (files (metadata st')) ''f'') = Some 10000
     \<and> length (chunks_r resp) = nat ((10000 + chunk_size (metadata two_nodes) - 1) div chunk_size (metadata two_nodes))
     \<and> (\<forall>i < length (chunks_r resp).
            start (chunks_r resp ! i) = int i * chunk_size (metadata two_nodes)
          \<and> size_c (chunks_r resp ! i)
              = min (chunk_size (metadata two_nodes)) (10000 - int i * chunk_size (metadata two_nodes)))
     \<and> sum_list (map size_c (chunks_r resp)) = 10000
     \<and> (\<forall>i < length (chunks_r resp).
            0 \<le> start (chunks_r resp ! i) \<and> 0 < size_c (chunks_r resp ! i)
          \<and> start (chunks_r resp ! i) + size_c (chunks_r resp ! i) \<le> 10000)
     \<and> (\<forall>b. 0 \<le> b \<and> b < 10000 \<longrightarrow>
            (\<exists>!i. i < length (chunks_r resp) \<and> start (chunks_r resp ! i) \<le> b
                  \<and> b < start (chunks_r resp ! i) + size_c (chunks_r resp ! i))))"
proof -
  have h1: "0 < chunk_size (metadata two_nodes)" by (simp add: two_nodes_def)
  have h2: "datanodes two_nodes \<noteq> []" by (simp add: two_nodes_def)
  have h3: "''f'' \<noteq> []" by simp
  have h4: "(0::int) < 10000" by simp
  from create_file_plan_tiles [OF h1 h2 h3 h4, of 0 0] h1 h2 h3 h4 show ?thesis by blast
qed

subsection \<open>Round-robin placement\<close>

lemma mod_shift_zero:
  fixes K N j :: nat
  assumes "j < N"
  shows "(K + (N - j)) mod N = 0 \<longleftrightarrow> K mod N = j"
proof
  assume z: "(K + (N - j)) mod N = 0"
  define r where "r = K mod N"
  have r: "r < N" using assms by (simp add: r_def)
  have "(r + (N - j)) mod N = 0" using z unfolding r_def by (simp add: mod_add_left_eq)
  then obtain k where k: "r + (N - j) = N * k" by (auto simp: mod_eq_0_iff_dvd)
  have "0 < N * k" using k assms by linarith
  then have "1 \<le> k" by (cases k) simp_all
  moreover have "N * k < N * 2" using k r assms by linarith
  then have "k < 2" by simp
  ultimately have "k = 1" by simp
  with k assms show "K mod N = j" unfolding r_def by simp
next
  assume "K mod N = j"
  then have "K = K div N * N + j" by (metis div_mult_mod_eq)
  then have "K + (N - j) = K div N * N + N" using assms by simp
  then show "(K + (N - j)) mod N = 0" by simp
qed

lemma round_robin_count:
  fixes N j :: nat
  assumes "j < N"
  shows "length (filter (\<lambda>i. i mod N = j) [0..<K]) = (K + N - 1 - j) div N"
proof (induction K)
  case 0
  from assms show ?case by simp
next
  case (Suc K)
  have s: "Suc K + N - 1 - j = Suc (K + N - 1 - j)" using assms by simp
  have t: "Suc (K + N - 1 - j) = K + (N - j)" using assms by simp
  have "Suc (K + N - 1 - j) div N =
        (if K mod N = j then Suc ((K + N - 1 - j) div N) else (K + N - 1 - j) div N)"
    unfolding div_Suc using mod_shift_zero [OF assms, of K] unfolding t by simp
  then show ?case using Suc.IH unfolding s by simp
qed

lemma floor_or_ceil:
  fixes K N j :: nat
  assumes "j < N"
  shows "(K + N - 1 - j) div N = K div N \<or> (K + N - 1 - j) div N = (K + N - 1) div N"
proof -
  have lo: "K div N \<le> (K + N - 1 - j) div N" using assms by (intro div_le_mono) simp
  have hi: "(K + N - 1 - j) div N \<le> (K + N - 1) div N" by (intro div_le_mono) simp
  have "(K + N - 1) div N \<le> (K + N) div N" by (intro div_le_mono) simp
  also have "\<dots> = Suc (K div N)" using assms by simp
  finally have "(K + N - 1) div N \<le> Suc (K div N)" .
  with lo hi show ?thesis by linarith
qed

lemma create_file_InrD:
  assumes "create_file t1 t2 filename filesize st = (Inr resp, st')"
  shows "\<exists>fname fsize. filename = Some fname \<and> filesize = Some fsize \<and> fname \<noteq> [] \<and> fsize \<noteq> 0
           \<and> chunk_size (metadata st) \<noteq> 0 \<and> datanodes st \<noteq> []"
  using assms
  by (auto simp: create_file_def Let_def split: option.splits if_splits)

lemma length_filter_nth:
  "length (filter P xs) = length (filter (\<lambda>i. P (xs ! i)) [0..<length xs])"
proof -
  have "filter P xs = filter P (map (nth xs) [0..<length xs])" by (simp add: map_nth)
  also have "\<dots> = map (nth xs) (filter (P \<circ> nth xs) [0..<length xs])" by (simp add: filter_map)
  finally have "length (filter P xs) = length (filter (P \<circ> nth xs) [0..<length xs])" by simp
  then show ?thesis by (simp add: comp_def)
qed

text \<open>
  The chunk size is fixed when the service starts (4 MiB unless a snapshot is loaded): no
  handler changes it.
\<close>

lemma startup_chunk_size: "chunk_size (metadata (startup None)) = 4194304"
  by (simp add: startup_def default_metadata_def)

lemma register_datanode_chunk_size:
  "chunk_size (metadata (snd (register_datanode t1 t2 t3 t4 nid nurl st))) = chunk_size (metadata st)"
  by (auto simp: register_datanode_def save_metadata_def Let_def
      split: prod.splits bool.splits option.splits)

lemma heartbeat_chunk_size:
  "chunk_size (metadata (snd (heartbeat t1 t2 nid st))) = chunk_size (metadata st)"
  by (auto simp: heartbeat_def save_metadata_def Let_def split: option.splits)

lemma create_file_chunk_size:
  "chunk_size (metadata (snd (create_file t1 t2 filename filesize st))) = chunk_size (metadata st)"
  by (auto simp: create_file_def save_metadata_def Let_def split: option.splits)

text \<open>
  The keys of the registry are pairwise distinct, as those of a dictionary are: the
  registry starts empty and every handler keeps its keys distinct.
\<close>

lemma startup_distinct: "distinct (map fst (datanodes (startup on_disk)))"
  by (simp add: startup_def split: option.splits)

lemma register_datanode_distinct:
  "distinct (map fst (datanodes st))
     \<Longrightarrow> distinct (map fst (datanodes (snd (register_datanode t1 t2 t3 t4 nid nurl st))))"
  by (auto simp: register_datanode_def save_metadata_def Let_def distinct_update
      split: prod.splits bool.splits option.splits)

lemma heartbeat_distinct:
  "distinct (map fst (datanodes st))
     \<Longrightarrow> distinct (map fst (datanodes (snd (heartbeat t1 t2 nid st))))"
  by (auto simp: heartbeat_def save_metadata_def Let_def distinct_map_entry split: option.splits)

lemma create_file_datanodes:
  "datanodes (snd (create_file t1 t2 filename filesize st)) = datanodes st"
  by (auto simp: create_file_def save_metadata_def Let_def split: option.splits)

lemma round_robin_counts:
  assumes "distinct (map fst (datanodes st))"
    and "create_file t1 t2 filename filesize st = (Inr resp, st')"
  shows "\<forall>n \<in> set (map fst (datanodes st)).
           length (filter (\<lambda>c. node_id c = n) (chunks_r resp))
             = length (chunks_r resp) div length (datanodes st)
         \<or> length (filter (\<lambda>c. node_id c = n) (chunks_r resp))
             = (length (chunks_r resp) + length (datanodes st) - 1) div length (datanodes st)"
proof
  fix n assume n: "n \<in> set (map fst (datanodes st))"
  define keys where "keys = map fst (datanodes st)"
  define N where "N = length (datanodes st)"
  from create_file_InrD [OF assms(2)] obtain fname fsize where
    a: "filename = Some fname" "filesize = Some fsize" "fname \<noteq> []" "fsize \<noteq> 0"
       "chunk_size (metadata st) \<noteq> 0" "datanodes st \<noteq> []" by blast
  from create_file_ok [OF a(3) a(4) a(5) a(6), of t1 t2] assms(2) a(1,2)
  have nid: "\<And>i. i < length (chunks_r resp) \<Longrightarrow> node_id (chunks_r resp ! i) = keys ! (i mod N)"
    unfolding keys_def N_def by auto
  from n obtain j where j: "j < N" "keys ! j = n"
    unfolding keys_def N_def by (metis in_set_conv_nth length_map)
  have d: "distinct keys" "length keys = N" using assms(1) by (simp_all add: keys_def N_def)
  have "length (filter (\<lambda>c. node_id c = n) (chunks_r resp))
        = length (filter (\<lambda>i. node_id (chunks_r resp ! i) = n) [0..<length (chunks_r resp)])"
    by (rule length_filter_nth)
  also have "filter (\<lambda>i. node_id (chunks_r resp ! i) = n) [0..<length (chunks_r resp)]
        = filter (\<lambda>i. i mod N = j) [0..<length (chunks_r resp)]"
  proof (rule filter_cong [OF refl])
    fix i assume "i \<in> set [0..<length (chunks_r resp)]"
    then have i: "i < length (chunks_r resp)" by simp
    have "i mod N < N" using j(1) by simp
    then have "(keys ! (i mod N) = keys ! j) = (i mod N = j)"
      using d j(1) by (simp add: nth_eq_iff_index_eq)
    then show "(node_id (chunks_r resp ! i) = n) = (i mod N = j)"
      using nid [OF i] j(2) by simp
  qed
  also have "length (filter (\<lambda>i. i mod N = j) [0..<length (chunks_r resp)])
        = (length (chunks_r resp) + N - 1 - j) div N"
    by (rule round_robin_count [OF j(1)])
  finally have "length (filter (\<lambda>c. node_id c = n) (chunks_r resp))
        = (length (chunks_r resp) + N - 1 - j) div N" .
  with floor_or_ceil [OF j(1), of "length (chunks_r resp)"]
  show "length (filter (\<lambda>c. node_id c = n) (chunks_r resp))
             = length (chunks_r resp) div length (datanodes st)
         \<or> length (filter (\<lambda>c. node_id c = n) (chunks_r resp))
             = (length (chunks_r resp) + length (datanodes st) - 1) div length (datanodes st)"
    unfolding N_def by simp
qed

lemma create_file_plan_shape:
  assumes "create_file t1 t2 filename filesize st = (Inr resp, st')"
  shows "(\<exists>fsize. filesize = Some fsize
            \<and> length (chunks_r resp)
                = nat ((fsize + chunk_size (metadata st) - 1) div chunk_size (metadata st)))
       \<and> (\<forall>i < length (chunks_r resp).
             node_id (chunks_r resp ! i)
               = map fst (datanodes st) ! (i mod length (datanodes st)))"
proof -
  from create_file_InrD [OF assms] obtain fname fsize where
    a: "filename = Some fname" "filesize = Some fsize" "fname \<noteq> []" "fsize \<noteq> 0"
       "chunk_size (metadata st) \<noteq> 0" "datanodes st \<noteq> []" by blast
  from create_file_ok [OF a(3) a(4) a(5) a(6), of t1 t2]
  obtain p where
    eq: "create_file t1 t2 (Some fname) (Some fsize) st =
           (Inr \<lparr>file_id_r = str_int (py_int (t1 * 1000)), chunks_r = p,
                 chunk_size_cr = chunk_size (metadata st)\<rparr>,
            save_metadata (st\<lparr>metadata := (metadata st)\<lparr>files :=
               AList.update fname
                 \<lparr>file_id = str_int (py_int (t1 * 1000)), size_f = fsize, created_at = t2,
                  chunks = p\<rparr> (files (metadata st))\<rparr>\<rparr>))"
    and len: "length p = nat ((fsize + chunk_size (metadata st) - 1) div chunk_size (metadata st))"
    and nid: "\<And>i. i < length p \<Longrightarrow>
                node_id (p ! i) = map fst (datanodes st) ! (i mod length (datanodes st))"
    by blast
  from eq assms a(1,2) have "chunks_r resp = p" by auto
  with len nid a(2) show ?thesis by simp
qed

lemma create_file_succeeds:
  assumes "\<not> falsy_str filename" "\<not> falsy_int filesize" "chunk_size (metadata st) \<noteq> 0"
    "datanodes st \<noteq> []"
  shows "\<exists>resp st'. create_file t1 t2 filename filesize st = (Inr resp, st')"
proof -
  from assms(1,2) obtain fname fsize where
    a: "filename = Some fname" "fname \<noteq> []" "filesize = Some fsize" "fsize \<noteq> 0"
    by (auto simp: falsy_str_def falsy_int_def split: option.splits)
  from create_file_ok [OF a(2) a(4) assms(3) assms(4), of t1 t2] show ?thesis
    unfolding a(1) a(3) by blast
qed

text \<open>
  C7. \<open>create_file\<close> answers a plan whenever the request passes the argument check, the
  chunk size is not zero and a node is registered. Every plan it answers has
  \<open>K = num_chunks = (filesize + chunk_size - 1) // chunk_size\<close> chunks, chunk \<open>i\<close> is
  assigned to the node at position \<open>i mod N\<close> of the \<open>N\<close> registered nodes, and each
  registered node is assigned \<open>K div N\<close> (the floor of \<open>K / N\<close>) or \<open>(K + N - 1) div N\<close>
  (its ceiling) chunks.
\<close>

theorem round_robin_fair:
  assumes "distinct (map fst (datanodes st))"
  shows "(\<not> falsy_str filename \<and> \<not> falsy_int filesize \<and> chunk_size (metadata st) \<noteq> 0
            \<and> datanodes st \<noteq> [] \<longrightarrow>
          (\<exists>resp st'. create_file t1 t2 filename filesize st = (Inr resp, st')))
       \<and> (\<forall>resp st'. create_file t1 t2 filename filesize st = (Inr resp, st') \<longrightarrow>
            (\<exists>fsize. filesize = Some fsize
               \<and> length (chunks_r resp)
                   = nat ((fsize + chunk_size (metadata st) - 1) div chunk_size (metadata st)))
          \<and> (\<forall>i < length (chunks_r resp).
                node_id (chunks_r resp ! i)
                  = map fst (datanodes st) ! (i mod length (datanodes st)))
          \<and> (\<forall>n \<in> set (map fst (datanodes st)).
                length (filter (\<lambda>c. node_id c = n) (chunks_r resp))
                  = length (chunks_r resp) div length (datanodes st)
              \<or> length (filter (\<lambda>c. node_id c = n) (chunks_r resp))
                  = (length (chunks_r resp) + length (datanodes st) - 1)
                      div length (datanodes st)))"
proof (intro conjI impI allI)
  assume "\<not> falsy_str filename \<and> \<not> falsy_int filesize \<and> chunk_size (metadata st) \<noteq> 0
            \<and> datanodes st \<noteq> []"
  then show "\<exists>resp st'. create_file t1 t2 filename filesize st = (Inr resp, st')"
    using create_file_succeeds by blast
next
  fix resp st' assume cf: "create_file t1 t2 filename filesize st = (Inr resp, st')"
  from create_file_plan_shape [OF cf]
  show "\<exists>fsize. filesize = Some fsize
               \<and> length (chunks_r resp)
                   = nat ((fsize + chunk_size (metadata st) - 1) div chunk_size (metadata st))"
    by blast
next
  fix resp st' i
  assume cf: "create_file t1 t2 filename filesize st = (Inr resp, st')"
    and i: "i < length (chunks_r resp)"
  from create_file_plan_shape [OF cf] i
  show "node_id (chunks_r resp ! i) = map fst (datanodes st) ! (i mod length (datanodes st))"
    by blast
next
  fix resp st' assume cf: "create_file t1 t2 filename filesize st = (Inr resp, st')"
  from round_robin_counts [OF assms cf]
  show "\<forall>n \<in> set (map fst (datanodes st)).
                length (filter (\<lambda>c. node_id c = n) (chunks_r resp))
                  = length (chunks_r resp) div length (datanodes st)
              \<or> length (filter (\<lambda>c. node_id c = n) (chunks_r resp))
                  = (length (chunks_r resp) + length (datanodes st) - 1)
                      div length (datanodes st)" .
qed

theorem round_robin_fair_witness:
  "distinct (map fst (datanodes two_nodes))
   \<and> \<not> falsy_str (Some ''f'') \<and> \<not> falsy_int (Some 10000)
   \<and> chunk_size (metadata two_nodes) \<noteq> 0 \<and> datanodes two_nodes \<noteq> []
   \<and> fst (create_file 0 0 (Some ''f'') (Some 10000) two_nodes) =
     Inr \<lparr>file_id_r = ''0'',
          chunks_r =
            [\<lparr>chunk_id = ''0_0'', node_id = ''A'', node_url = ''http://a'', start = 0, size_c = 4096\<rparr>,
             \<lparr>chunk_id = ''0_1'', node_id = ''B'', node_url = ''http://b'', start = 4096, size_c = 4096\<rparr>,
             \<lparr>chunk_id = ''0_2'', node_id = ''A'', node_url = ''http://a'', start = 8192, size_c = 1808\<rparr>],
          chunk_size_cr = 4096\<rparr>
   \<and> length
        [\<lparr>chunk_id = ''0_0'', node_id = ''A'', node_url = ''http://a'', start = 0, size_c = 4096\<rparr>,
         \<lparr>chunk_id = ''0_1'', node_id = ''B'', node_url = ''http://b'', start = 4096, size_c = 4096\<rparr>,
         \<lparr>chunk_id = ''0_2'', node_id = ''A'', node_url = ''http://a'', start = 8192, size_c = 1808\<rparr>]
       = nat ((10000 + chunk_size (metadata two_nodes) - 1) div chunk_size (metadata two_nodes))
   \<and> (length (filter (\<lambda>c. node_id c = ''B'')
          [\<lparr>chunk_id = ''0_0'', node_id = ''A'', node_url = ''http://a'', start = 0, size_c = 4096\<rparr>,
           \<lparr>chunk_id = ''0_1'', node_id = ''B'', node_url = ''http://b'', start = 4096, size_c = 4096\<rparr>,
           \<lparr>chunk_id = ''0_2'', node_id = ''A'', node_url = ''http://a'', start = 8192, size_c = 1808\<rparr>])
        = 3 div 2
      \<or> length (filter (\<lambda>c. node_id c = ''B'')
          [\<lparr>chunk_id = ''0_0'', node_id = ''A'', node_url = ''http://a'', start = 0, size_c = 4096\<rparr>,
           \<lparr>chunk_id = ''0_1'', node_id = ''B'', node_url = ''http://b'', start = 4096, size_c = 4096\<rparr>,
           \<lparr>chunk_id = ''0_2'', node_id = ''A'', node_url = ''http://a'', start = 8192, size_c = 1808\<rparr>])
        = (3 + 2 - 1) div 2)"
proof -
  let ?plan = "[\<lparr>chunk_id = ''0_0'', node_id = ''A'', node_url = ''http://a'', start = 0, size_c = 4096\<rparr>,
         \<lparr>chunk_id = ''0_1'', node_id = ''B'', node_url = ''http://b'', start = 4096, size_c = 4096\<rparr>,
         \<lparr>chunk_id = ''0_2'', node_id = ''A'', node_url = ''http://a'', start = 8192, size_c = 1808\<rparr>]"
  let ?resp = "\<lparr>file_id_r = ''0'', chunks_r = ?plan, chunk_size_cr = 4096\<rparr>"
  have d: "distinct (map fst (datanodes two_nodes))" by (simp add: two_nodes_def)
  have v: "\<not> falsy_str (Some ''f'')" "\<not> falsy_int (Some 10000)"
    "chunk_size (metadata two_nodes) \<noteq> 0" "datanodes two_nodes \<noteq> []"
    by (simp_all add: falsy_str_def falsy_int_def two_nodes_def)
  have eq: "create_file 0 0 (Some ''f'') (Some 10000) two_nodes =
     (Inr ?resp, snd (create_file 0 0 (Some ''f'') (Some 10000) two_nodes))"
    using scenario_plan by (metis prod.collapse)
  have b: "''B'' \<in> set (map fst (datanodes two_nodes))" by (simp add: two_nodes_def)
  from round_robin_fair [OF d, of "Some ''f''" "Some 10000" 0 0]
  have all: "\<forall>resp st'. create_file 0 0 (Some ''f'') (Some 10000) two_nodes = (Inr resp, st') \<longrightarrow>
            (\<exists>fsize. Some 10000 = Some fsize
               \<and> length (chunks_r resp)
                   = nat ((fsize + chunk_size (metadata two_nodes) - 1)
                            div chunk_size (metadata two_nodes)))
          \<and> (\<forall>i < length (chunks_r resp).
                node_id (chunks_r resp ! i)
                  = map fst (datanodes two_nodes) ! (i mod length (datanodes two_nodes)))
          \<and> (\<forall>n \<in> set (map fst (datanodes two_nodes)).
                length (filter (\<lambda>c. node_id c = n) (chunks_r resp))
                  = length (chunks_r resp) div length (datanodes two_nodes)
              \<or> length (filter (\<lambda>c. node_id c = n) (chunks_r resp))
                  = (length (chunks_r resp) + length (datanodes two_nodes) - 1)
                      div length (datanodes two_nodes))"
    by blast
  from all eq
  have big: "(\<exists>fsize. Some 10000 = Some fsize
               \<and> length (chunks_r ?resp)
                   = nat ((fsize + chunk_size (metadata two_nodes) - 1)
                            div chunk_size (metadata two_nodes)))
          \<and> (\<forall>i < length (chunks_r ?resp).
                node_id (chunks_r ?resp ! i)
                  = map fst (datanodes two_nodes) ! (i mod length (datanodes two_nodes)))
          \<and> (\<forall>n \<in> set (map fst (datanodes two_nodes)).
                length (filter (\<lambda>c. node_id c = n) (chunks_r ?resp))
                  = length (chunks_r ?resp) div length (datanodes two_nodes)
              \<or> length (filter (\<lambda>c. node_id c = n) (chunks_r ?resp))
                  = (length (chunks_r ?resp) + length (datanodes two_nodes) - 1)
                      div length (datanodes two_nodes))"
    by blast
  from conjunct1 [OF big]
  have len: "length (chunks_r ?resp)
               = nat ((10000 + chunk_size (metadata two_nodes) - 1) div chunk_size (metadata two_nodes))"
    by blast
  from bspec [OF conjunct2 [OF conjunct2 [OF big]] b]
  have cnt: "length (filter (\<lambda>c. node_id c = ''B'') (chunks_r ?resp))
                  = length (chunks_r ?resp) div length (datanodes two_nodes)
              \<or> length (filter (\<lambda>c. node_id c = ''B'') (chunks_r ?resp))
                  = (length (chunks_r ?resp) + length (datanodes two_nodes) - 1)
                      div length (datanodes two_nodes)" .
  have n2: "length (datanodes two_nodes) = 2" by (simp add: two_nodes_def)
  from len cnt d v scenario_plan n2 show ?thesis by simp
qed

section \<open>Failures of \<open>create_file\<close>\<close>




text \<open>
  C3. A request with \<open>filesize = 0\<close> is answered 400 \<open>Missing filename or filesize\<close>,
  whatever the registry holds, and nothing is recorded: \<open>not filesize\<close> is true of
  zero, so the file size that is present is reported as missing.
\<close>

theorem create_file_zero_size_rejected:
  "create_file t1 t2 (Some fname) (Some 0) st = (Inl (Http400 ''Missing filename or filesize''), st)"
  by (simp add: create_file_def)

section \<open>Registration\<close>

text \<open>
  C4, as amended. For a \<open>node_id\<close> already in the registry, \<open>register_datanode\<close>
  answers 200 with the status message \<open>Node with id <node_id> is registered!\<close> and no
  \<open>chunk_size\<close> field, and leaves the whole state unchanged (the stored
  \<open>registered_at\<close> and the rest of the node's record included).
\<close>

theorem register_existing_node:
  assumes "k \<in> fst ` set (datanodes st)"
  shows "register_datanode t1 t2 t3 t4 (Some k) nurl st
           = (Inr \<lparr>status = ''Node with id '' @ k @ '' is registered!'', chunk_size_r = None\<rparr>, st)"
proof -
  from assms obtain n where "map_of (datanodes st) k = Some n"
    by (metis domD dom_map_of_conv_image_fst)
  then show ?thesis
    by (simp add: register_datanode_def is_node_registred_def str_opt_def)
qed

theorem register_existing_node_witness:
  "''A'' \<in> fst ` set (datanodes (snd (register_datanode 1 2 3 4 (Some ''A'') (Some ''http://a'') (startup None))))
   \<and> register_datanode 5 6 7 8 (Some ''A'') (Some ''http://a'')
        (snd (register_datanode 1 2 3 4 (Some ''A'') (Some ''http://a'') (startup None)))
      = (Inr \<lparr>status = ''Node with id A is registered!'', chunk_size_r = None\<rparr>,
         snd (register_datanode 1 2 3 4 (Some ''A'') (Some ''http://a'') (startup None)))"
proof -
  have h: "''A'' \<in> fst ` set (datanodes (snd (register_datanode 1 2 3 4 (Some ''A'') (Some ''http://a'') (startup None))))"
    by (simp add: register_datanode_def is_node_registred_def startup_def save_metadata_def Let_def)
  from register_existing_node [OF h, of 5 6 7 8 "Some ''http://a''"] h show ?thesis by simp
qed

text \<open>
  The claim as stated fails on the \<open>chunk_size\<close> field: the first registration of
  \<open>A\<close> answers the chunk size, the second one does not.
\<close>

theorem register_twice_omits_chunk_size:
  "fst (register_datanode 1 2 3 4 (Some ''A'') (Some ''http://a'') (startup None))
     = Inr \<lparr>status = ''registered'', chunk_size_r = Some 4194304\<rparr>
   \<and> fst (register_datanode 5 6 7 8 (Some ''A'') (Some ''http://a'')
        (snd (register_datanode 1 2 3 4 (Some ''A'') (Some ''http://a'') (startup None))))
     = Inr \<lparr>status = ''Node with id A is registered!'', chunk_size_r = None\<rparr>"
  by (simp add: register_datanode_def is_node_registred_def startup_def save_metadata_def
      default_metadata_def str_opt_def Let_def)


section \<open>Restart of the coordination service\<close>

lemma heartbeat_empty_registry:
  "datanodes st = [] \<Longrightarrow> heartbeat t1 t2 nid st = (Inl (Http400 ''Unknown node_id''), st)"
  by (simp add: heartbeat_def split: option.splits)

lemma create_file_empty_registry:
  "datanodes st = [] \<Longrightarrow> \<exists>e. create_file t1 t2 filename filesize st = (Inl e, st)"
  by (auto simp: create_file_def Let_def split: option.splits)

lemma heartbeat_after_register:
  assumes "k \<noteq> []" "u \<noteq> []" "map_of (datanodes st) k = None"
  shows "fst (heartbeat t1 t2 (Some k) (snd (register_datanode r1 r2 r3 r4 (Some k) (Some u) st)))
           = Inr ''alive''"
  using assms
  by (simp add: heartbeat_def register_datanode_def is_node_registred_def save_metadata_def
      Let_def dom_update)

text \<open>
  C2, as amended. After a start that loads a saved snapshot, the service serves the
  snapshot's \<open>metadata\<close> but its registry of nodes is empty, whatever the snapshot's
  \<open>datanodes\<close> mapping records: every \<open>heartbeat\<close> is answered 400
  \<open>Unknown node_id\<close> and \<open>create_file\<close> assigns no chunk (it fails and changes
  nothing, with 503 when the request passes the argument check and the chunk size is
  not zero). A node counts as registered once it has called \<open>register_datanode\<close>
  again: its next \<open>heartbeat\<close> is answered \<open>alive\<close>.
\<close>

theorem restart_registry_empty:
  "metadata (startup (Some m)) = m
   \<and> datanodes (startup (Some m)) = []
   \<and> heartbeat t1 t2 nid (startup (Some m)) = (Inl (Http400 ''Unknown node_id''), startup (Some m))
   \<and> (\<exists>e. create_file t3 t4 filename filesize (startup (Some m)) = (Inl e, startup (Some m)))
   \<and> (\<not> falsy_str filename \<and> \<not> falsy_int filesize \<and> chunk_size m \<noteq> 0 \<longrightarrow>
        fst (create_file t3 t4 filename filesize (startup (Some m)))
          = Inl (Http503 ''No active datanodes available''))
   \<and> (k \<noteq> [] \<and> u \<noteq> [] \<longrightarrow>
        fst (heartbeat t1 t2 (Some k)
               (snd (register_datanode r1 r2 r3 r4 (Some k) (Some u) (startup (Some m)))))
          = Inr ''alive'')"
proof -
  have d: "datanodes (startup (Some m)) = []" by (simp add: startup_def)
  have m: "metadata (startup (Some m)) = m" by (simp add: startup_def)
  have h: "heartbeat t1 t2 nid (startup (Some m)) = (Inl (Http400 ''Unknown node_id''), startup (Some m))"
    by (rule heartbeat_empty_registry [OF d])
  have c: "\<exists>e. create_file t3 t4 filename filesize (startup (Some m)) = (Inl e, startup (Some m))"
    by (rule create_file_empty_registry [OF d])
  have c503: "\<not> falsy_str filename \<and> \<not> falsy_int filesize \<and> chunk_size m \<noteq> 0 \<longrightarrow>
        fst (create_file t3 t4 filename filesize (startup (Some m)))
          = Inl (Http503 ''No active datanodes available'')"
    using d m
    by (auto simp: create_file_def falsy_str_def falsy_int_def Let_def split: option.splits)
  have r: "k \<noteq> [] \<and> u \<noteq> [] \<longrightarrow>
        fst (heartbeat t1 t2 (Some k)
               (snd (register_datanode r1 r2 r3 r4 (Some k) (Some u) (startup (Some m)))))
          = Inr ''alive''"
    using heartbeat_after_register [of k u "startup (Some m)"] d by simp
  from m d h c c503 r show ?thesis by blast
qed

theorem restart_registry_empty_witness:
  "\<not> falsy_str (Some ''f'') \<and> \<not> falsy_int (Some 10000) \<and> chunk_size (metadata two_nodes) \<noteq> 0
   \<and> ''A'' \<noteq> [] \<and> ''http://a'' \<noteq> []
   \<and> fst (create_file 5 6 (Some ''f'') (Some 10000) (startup (Some (metadata two_nodes))))
       = Inl (Http503 ''No active datanodes available'')
   \<and> fst (heartbeat 7 8 (Some ''A'')
            (snd (register_datanode 1 2 3 4 (Some ''A'') (Some ''http://a'')
                   (startup (Some (metadata two_nodes))))))
       = Inr ''alive''"
proof -
  have v: "\<not> falsy_str (Some ''f'') \<and> \<not> falsy_int (Some 10000) \<and> chunk_size (metadata two_nodes) \<noteq> 0"
    by (simp add: falsy_str_def falsy_int_def two_nodes_def)
  have w: "''A'' \<noteq> [] \<and> ''http://a'' \<noteq> []" by simp
  from restart_registry_empty [of "metadata two_nodes" 7 8 "Some ''A''" 5 6 "Some ''f''" "Some 10000"
      "''A''" "''http://a''" 1 2 3 4] v w
  show ?thesis by simp
qed

text \<open>
  The claim as stated fails: node \<open>A\<close> is recorded in the snapshot that is loaded, and
  its heartbeat is refused; a file cannot be created either.
\<close>

theorem restart_heartbeat_unknown_node:
  "map_of (md_datanodes (metadata two_nodes)) ''A''
     = Some \<lparr>url = ''http://a'', registered_at = 1, last_heartbeat = 1\<rparr>
   \<and> fst (heartbeat 5 6 (Some ''A'') (startup (Some (metadata two_nodes))))
       = Inl (Http400 ''Unknown node_id'')
   \<and> fst (create_file 5 6 (Some ''f'') (Some 10000) (startup (Some (metadata two_nodes))))
       = Inl (Http503 ''No active datanodes available'')"
  by (simp add: heartbeat_def create_file_def startup_def two_nodes_def)

section \<open>The checkpoint file\<close>

lemma fold_writes:
  "d P = Some c \<Longrightarrow> fold file_step (map (Write_str P) ps) d = d(P \<mapsto> c @ concat ps)"
  by (induction ps arbitrary: c d) (simp_all add: map_upd_triv)

text \<open>
  C5, as amended. \<open>save_metadata\<close> rewrites the canonical file in place and writes no
  other file (there is no staging location): a process that dies after \<open>k\<close> of its
  file operations leaves the previous snapshot when \<open>k = 0\<close>, and otherwise the
  concatenation of the first \<open>k - 1\<close> pieces of the new text (empty right after the
  file is opened); once all operations are done, the file holds the new text.
\<close>

theorem save_metadata_in_place:
  "crash_after k (save_metadata_ops json_pieces) d METADATA_FILE
     = (if k = 0 then d METADATA_FILE else Some (concat (take (k - 1) json_pieces)))
   \<and> crash_after (length (save_metadata_ops json_pieces)) (save_metadata_ops json_pieces) d
       METADATA_FILE = Some (concat json_pieces)
   \<and> (\<forall>p. p \<noteq> METADATA_FILE \<longrightarrow> crash_after k (save_metadata_ops json_pieces) d p = d p)"
proof -
  have step: "\<And>j. crash_after (Suc j) (save_metadata_ops json_pieces) d
                 = d(METADATA_FILE \<mapsto> concat (take j json_pieces))"
    by (simp add: crash_after_def save_metadata_ops_def take_map fold_writes)
  have zero: "crash_after 0 (save_metadata_ops json_pieces) d = d"
    by (simp add: crash_after_def)
  have full: "crash_after (length (save_metadata_ops json_pieces)) (save_metadata_ops json_pieces) d
       METADATA_FILE = Some (concat json_pieces)"
    using step [of "length json_pieces"] by (simp add: save_metadata_ops_def)
  show ?thesis
  proof (cases k)
    case 0
    with zero full show ?thesis by simp
  next
    case (Suc j)
    with step [of j] full show ?thesis by simp
  qed
qed

theorem save_metadata_in_place_witness:
  "''/data/metadata.json.tmp'' \<noteq> METADATA_FILE
   \<and> crash_after 2 (save_metadata_ops [''{'', ''new'', ''}'']) [METADATA_FILE \<mapsto> ''{old}'']
        ''/data/metadata.json.tmp'' = None
   \<and> crash_after 2 (save_metadata_ops [''{'', ''new'', ''}'']) [METADATA_FILE \<mapsto> ''{old}'']
        METADATA_FILE = Some ''{''
   \<and> crash_after 4 (save_metadata_ops [''{'', ''new'', ''}'']) [METADATA_FILE \<mapsto> ''{old}'']
        METADATA_FILE = Some ''{new}''"
proof -
  have h: "''/data/metadata.json.tmp'' \<noteq> METADATA_FILE" by (simp add: METADATA_FILE_def)
  from save_metadata_in_place [of 2 "[''{'', ''new'', ''}'']" "[METADATA_FILE \<mapsto> ''{old}'']"]
    save_metadata_in_place [of 4 "[''{'', ''new'', ''}'']" "[METADATA_FILE \<mapsto> ''{old}'']"] h
  show ?thesis by (simp add: save_metadata_ops_def)
qed

text \<open>
  The claim as stated fails: after the first operation the canonical file is empty,
  which is neither the previous snapshot nor the new one, and no staging file exists.
\<close>

theorem save_metadata_crash_truncated:
  "crash_after 1 (save_metadata_ops [''{'', ''new'', ''}'']) [METADATA_FILE \<mapsto> ''{old}'']
     METADATA_FILE = Some ''''
   \<and> '''' \<noteq> ''{old}'' \<and> '''' \<noteq> concat [''{'', ''new'', ''}'']
   \<and> crash_after 1 (save_metadata_ops [''{'', ''new'', ''}'']) [METADATA_FILE \<mapsto> ''{old}'']
        ''/data/metadata.json.tmp'' = None"
  by (simp add: crash_after_def save_metadata_ops_def METADATA_FILE_def)

section \<open>Statistics reports\<close>

text \<open>
  C10, as amended. \<open>record_stats\<close> answers 400 whenever one of the four fields is
  missing or falsy, in particular when \<open>bytes\<close> or \<open>duration_ms\<close> is zero. The
  throughput computation divides by zero exactly when the report passes that check with
  a \<open>duration_ms\<close> of magnitude at most \<open>500 / 2 ^ 1074\<close>, whose quotient by 1000 is
  \<open>0.0\<close>; it never does for a \<open>duration_ms\<close> of larger magnitude.
\<close>

theorem record_stats_rejects_falsy:
  "(falsy_str nid \<or> falsy_str operation \<or> falsy_int bytes_processed \<or> falsy_float duration_ms \<longrightarrow>
      record_stats nid operation bytes_processed duration_ms = Inl (Http400 ''Missing required fields''))
   \<and> record_stats nid operation (Some 0) duration_ms = Inl (Http400 ''Missing required fields'')
   \<and> record_stats nid operation bytes_processed (Some 0) = Inl (Http400 ''Missing required fields'')
   \<and> (record_stats nid operation bytes_processed duration_ms = Inl (Http500 ''ZeroDivisionError'')
        \<longleftrightarrow> \<not> falsy_str nid \<and> \<not> falsy_str operation \<and> \<not> falsy_int bytes_processed
            \<and> (\<exists>d. duration_ms = Some d \<and> d \<noteq> 0 \<and> \<bar>d\<bar> \<le> 500 / 2 ^ 1074))"
proof -
  have q: "\<And>d::real. float_quotient_zero d 1000 \<longleftrightarrow> \<bar>d\<bar> \<le> 500 / 2 ^ 1074"
    by (simp add: float_quotient_zero_def field_simps)
  show ?thesis
    by (auto simp: record_stats_def falsy_str_def falsy_int_def falsy_float_def q
        split: option.splits)
qed

theorem record_stats_rejects_falsy_witness:
  "falsy_int (Some 0)
   \<and> record_stats (Some ''1'') (Some ''write'') (Some 0) (Some 12) = Inl (Http400 ''Missing required fields'')
   \<and> falsy_float (Some 0)
   \<and> record_stats (Some ''1'') (Some ''write'') (Some 4096) (Some 0) = Inl (Http400 ''Missing required fields'')
   \<and> record_stats (Some ''1'') (Some ''write'') (Some 1048576) (Some 500)
       \<noteq> Inl (Http500 ''ZeroDivisionError'')"
proof -
  have a: "falsy_int (Some 0)" "falsy_float (Some 0)" by (simp_all add: falsy_int_def falsy_float_def)
  have b: "\<not> \<bar>500::real\<bar> \<le> 500 / 2 ^ 1074" by simp
  from record_stats_rejects_falsy [of "Some ''1''" "Some ''write''" "Some 0" "Some 12"]
    record_stats_rejects_falsy [of "Some ''1''" "Some ''write''" "Some 4096" "Some 0"]
    record_stats_rejects_falsy [of "Some ''1''" "Some ''write''" "Some 1048576" "Some 500"] a b
  show ?thesis by simp
qed

text \<open>
  The claim as stated fails: every field of this report is present and truthy, and the
  division raises (\<open>1 / 2 ^ 1074\<close> is the smallest positive double).
\<close>

theorem record_stats_divides_by_zero:
  "\<not> falsy_str (Some ''1'') \<and> \<not> falsy_str (Some ''read'') \<and> \<not> falsy_int (Some 4096)
   \<and> \<not> falsy_float (Some (1 / 2 ^ 1074))
   \<and> record_stats (Some ''1'') (Some ''read'') (Some 4096) (Some (1 / 2 ^ 1074))
       = Inl (Http500 ''ZeroDivisionError'')"
  by (simp add: record_stats_def falsy_str_def falsy_int_def falsy_float_def float_quotient_zero_def)

section \<open>Retrieval of chunks from a storage node\<close>













section \<open>Reassembly by the client\<close>

lemma fold_slots:
  assumes "length slots = n"
  shows "length (fold (\<lambda>i s. if i < n then s[i := Some (g i)] else s) js slots) = n
       \<and> (\<forall>i < n. fold (\<lambda>i s. if i < n then s[i := Some (g i)] else s) js slots ! i
                     = (if i \<in> set js then Some (g i) else slots ! i))"
  using assms
proof (induction js arbitrary: slots)
  case Nil
  then show ?case by simp
next
  case (Cons j js)
  let ?s = "if j < n then slots[j := Some (g j)] else slots"
  have len: "length ?s = n" using Cons.prems by simp
  from Cons.IH [OF len]
  have ih: "length (fold (\<lambda>i s. if i < n then s[i := Some (g i)] else s) js ?s) = n"
    "\<And>i. i < n \<Longrightarrow> fold (\<lambda>i s. if i < n then s[i := Some (g i)] else s) js ?s ! i
                     = (if i \<in> set js then Some (g i) else ?s ! i)"
    by simp_all
  show ?case
  proof (intro conjI allI impI)
    show "length (fold (\<lambda>i s. if i < n then s[i := Some (g i)] else s) (j # js) slots) = n"
      using ih(1) by simp
  next
    fix i assume i: "i < n"
    show "fold (\<lambda>i s. if i < n then s[i := Some (g i)] else s) (j # js) slots ! i
            = (if i \<in> set (j # js) then Some (g i) else slots ! i)"
      using ih(2) [OF i] i Cons.prems by (auto simp: nth_list_update)
  qed
qed

lemma those_map_Some: "those (map Some ys) = Some ys"
  by (induction ys) simp_all

lemma executor_map_complete:
  assumes "{0..<length xs} \<subseteq> set completion"
  shows "executor_map fn xs completion = Some (map fn xs)"
proof -
  let ?n = "length xs"
  let ?r = "fold (\<lambda>i s. if i < ?n then s[i := Some (fn (xs ! i))] else s)
              completion (replicate ?n None)"
  from fold_slots [of "replicate ?n None" ?n "\<lambda>i. fn (xs ! i)" completion]
  have len: "length ?r = ?n"
    and nth: "\<And>i. i < ?n \<Longrightarrow> ?r ! i = (if i \<in> set completion then Some (fn (xs ! i)) else None)"
    by simp_all
  have "?r = map Some (map fn xs)"
  proof (rule nth_equalityI)
    show "length ?r = length (map Some (map fn xs))" using len by simp
  next
    fix i assume "i < length ?r"
    then have i: "i < ?n" using len by simp
    then have "i \<in> set completion" using assms by auto
    then show "?r ! i = map Some (map fn xs) ! i" using nth [OF i] i by simp
  qed
  then show ?thesis
    unfolding executor_map_def by (simp only: those_map_Some)
qed

lemma download_chunk_ok:
  assumes "fetch (node_url c) (chunk_id c) = Some (200, content)"
  shows "download_chunk fetch c = Some \<lparr>chunk_id_d = chunk_id c, start_d = start c, data = content\<rparr>"
  using assms by (simp add: download_chunk_def)

lemma map_filter_Some: "List.map_filter (\<lambda>c. c) (map Some ys) = ys"
  by (induction ys) (simp_all add: List.map_filter_simps)

lemma download_writes_listed_order:
  assumes got: "\<forall>i < length (chunks info).
                  fetch (node_url (chunks info ! i)) (chunk_id (chunks info ! i)) = Some (200, body i)"
    and fin: "{0..<length (chunks info)} \<subseteq> set completion"
  shows "download t3 t4 (Inr info) fetch completion =
           Some \<lparr>written = Some (concat (map body [0..<length (chunks info)])),
                 incomplete = False, reported_ok = (t4 - t3 \<noteq> 0)\<rparr>"
proof -
  define plan where "plan = chunks info"
  define ds where "ds = map (\<lambda>i. \<lparr>chunk_id_d = chunk_id (plan ! i), start_d = start (plan ! i),
                                   data = body i\<rparr>) [0..<length plan]"
  have "map (download_chunk fetch) plan = map Some ds"
  proof (rule nth_equalityI)
    show "length (map (download_chunk fetch) plan) = length (map Some ds)" by (simp add: ds_def)
  next
    fix i assume "i < length (map (download_chunk fetch) plan)"
    then have i: "i < length plan" by simp
    with got have "fetch (node_url (plan ! i)) (chunk_id (plan ! i)) = Some (200, body i)"
      by (simp add: plan_def)
    from download_chunk_ok [of fetch "plan ! i" "body i"] this
    show "map (download_chunk fetch) plan ! i = map Some ds ! i"
      using i by (simp add: ds_def)
  qed
  with executor_map_complete [OF fin, of "download_chunk fetch"]
  have ex: "executor_map (download_chunk fetch) plan completion = Some (map Some ds)"
    by (simp add: plan_def)
  have d: "map data ds = map body [0..<length plan]" by (simp add: ds_def comp_def)
  have l: "length ds = length plan" by (simp add: ds_def)
  show ?thesis
    using ex d l by (simp add: download_def map_filter_Some Let_def plan_def [symmetric])
qed

text \<open>
  Every plan of \<open>create_file\<close> lists its chunks in strictly ascending \<open>start\<close> order
  (for the positive chunk size the service is configured with), so for the records of
  this master the listed order is the \<open>start\<close> order.
\<close>

lemma create_file_starts_ascending:
  assumes cf: "create_file t1 t2 filename filesize st = (Inr resp, st')"
    and cs: "0 < chunk_size (metadata st)"
  shows "sorted_wrt (<) (map start (chunks_r resp))"
proof -
  from create_file_InrD [OF cf] obtain fname fsize where
    a: "filename = Some fname" "filesize = Some fsize" "fname \<noteq> []" "fsize \<noteq> 0"
       "chunk_size (metadata st) \<noteq> 0" "datanodes st \<noteq> []" by blast
  from create_file_ok [OF a(3) a(4) a(5) a(6), of t1 t2]
  obtain p where
    eq: "create_file t1 t2 (Some fname) (Some fsize) st =
           (Inr \<lparr>file_id_r = str_int (py_int (t1 * 1000)), chunks_r = p,
                 chunk_size_cr = chunk_size (metadata st)\<rparr>,
            save_metadata (st\<lparr>metadata := (metadata st)\<lparr>files :=
               AList.update fname
                 \<lparr>file_id = str_int (py_int (t1 * 1000)), size_f = fsize, created_at = t2,
                  chunks = p\<rparr> (files (metadata st))\<rparr>\<rparr>))"
    and pst: "\<And>i. i < length p \<Longrightarrow> start (p ! i) = int i * chunk_size (metadata st)"
    by blast
  from eq cf a(1,2) have "chunks_r resp = p" by auto
  then show ?thesis using pst cs by (simp add: sorted_wrt_iff_nth_less)
qed


end
